theory Spec2Isabelle
  imports Complex_Main
begin

section \<open>Request payloads\<close>

text \<open>
  The handlers of \<^verbatim>\<open>src/thrml_api/app.py\<close> read the parsed JSON body with
  \<^verbatim>\<open>data.get(key, default)\<close>: the body is a JSON object, a map from keys to values.
  A JSON value is modelled by \<open>jval\<close>; an array is an array of numbers. Floating-point
  numbers are modelled by reals: rounding, infinities and NaN are outside the model.
\<close>

datatype jval = JNull | JBool bool | JInt int | JNum real | JStr string | JList "real list"

type_synonym payload = "string \<rightharpoonup> jval"

text \<open>\<^verbatim>\<open>data.get(k, dflt)\<close>\<close>

definition dict_get :: "payload \<Rightarrow> string \<Rightarrow> jval \<Rightarrow> jval" where
  "dict_get data k dflt = (case data k of None \<Rightarrow> dflt | Some v \<Rightarrow> v)"

text \<open>
  Every exception raised inside the \<^verbatim>\<open>try\<close> block is a value; the handler reports
  \<^verbatim>\<open>type(e).__name__\<close> and \<^verbatim>\<open>str(e)\<close>. \<open>TypeError\<close> is Python's; \<open>ConfigurationError\<close>
  is the kind that section 7 of the spec gives to a malformed configuration. The
  messages are worded here.
\<close>

datatype exn = TypeError string | ConfigurationError string

fun exn_name :: "exn \<Rightarrow> string" where
  "exn_name (TypeError m) = ''TypeError''"
| "exn_name (ConfigurationError m) = ''ConfigurationError''"

fun exn_msg :: "exn \<Rightarrow> string" where
  "exn_msg (TypeError m) = m"
| "exn_msg (ConfigurationError m) = m"

text \<open>
  Python integer contexts (\<^verbatim>\<open>n_nodes - 1\<close> used as a repeat count, \<^verbatim>\<open>[0.0] * n_nodes\<close>,
  \<^verbatim>\<open>range(n_nodes)\<close>): an \<^verbatim>\<open>int\<close> is accepted, a \<^verbatim>\<open>bool\<close> is an \<^verbatim>\<open>int\<close>, every other
  JSON value raises \<^verbatim>\<open>TypeError\<close>.
\<close>

fun py_int :: "jval \<Rightarrow> exn + int" where
  "py_int (JInt n) = Inr n"
| "py_int (JBool b) = Inr (if b then 1 else 0)"
| "py_int JNull = Inl (TypeError ''NoneType cannot be interpreted as an integer'')"
| "py_int (JNum x) = Inl (TypeError ''float cannot be interpreted as an integer'')"
| "py_int (JStr s) = Inl (TypeError ''str cannot be interpreted as an integer'')"
| "py_int (JList xs) = Inl (TypeError ''list cannot be interpreted as an integer'')"

text \<open>\<^verbatim>\<open>[x] * k\<close>: a count below one gives the empty list.\<close>

definition py_repeat :: "real \<Rightarrow> int \<Rightarrow> real list" where
  "py_repeat x k = replicate (nat k) x"

text \<open>\<^verbatim>\<open>range(k)\<close>: empty when \<open>k \<le> 0\<close>.\<close>

definition py_range :: "int \<Rightarrow> nat list" where
  "py_range k = [0..<nat k]"

section \<open>Chain graph and block partition\<close>

text \<open>
  \<^verbatim>\<open>nodes = [SpinNode() for _ in range(n_nodes)]\<close>: a node carries no value, only an
  identity; the identity of the node created at position \<open>i\<close> is \<open>i\<close>.
\<close>

definition chain_nodes :: "int \<Rightarrow> nat list" where
  "chain_nodes n_nodes = py_range n_nodes"

text \<open>\<^verbatim>\<open>edges = [(nodes[i], nodes[i+1]) for i in range(n_nodes - 1)]\<close>\<close>

definition chain_edges :: "nat list \<Rightarrow> int \<Rightarrow> (nat \<times> nat) list" where
  "chain_edges nodes n_nodes = map (\<lambda>i. (nodes ! i, nodes ! (i + 1))) (py_range (n_nodes - 1))"

text \<open>The slice \<^verbatim>\<open>xs[::2]\<close>; \<^verbatim>\<open>xs[1::2]\<close> is the same slice of \<open>drop 1 xs\<close>.\<close>

fun slice2 :: "'a list \<Rightarrow> 'a list" where
  "slice2 [] = []"
| "slice2 [x] = [x]"
| "slice2 (x # y # xs) = x # slice2 xs"

text \<open>\<^verbatim>\<open>free_blocks = [Block(nodes[::2]), Block(nodes[1::2])]\<close>\<close>

definition free_blocks :: "nat list \<Rightarrow> nat list list" where
  "free_blocks nodes = [slice2 nodes, slice2 (drop 1 nodes)]"

section \<open>Arrays\<close>

text \<open>
  Modelled from the spec: the array library behind \<^verbatim>\<open>jnp.array\<close> is not part of the
  repository. The spec (sections 3 and 6) fixes what the handler needs of it: weights and
  biases are sequences of reals, \<open>\<beta>\<close> is a scalar. A JSON number becomes a scalar, a JSON
  array of numbers a vector; \<^verbatim>\<open>null\<close> and strings are no array.
\<close>

datatype jarr = Scalar real | Vec "real list"

fun jnp_array :: "jval \<Rightarrow> exn + jarr" where
  "jnp_array (JInt n) = Inr (Scalar (of_int n))"
| "jnp_array (JNum x) = Inr (Scalar x)"
| "jnp_array (JBool b) = Inr (Scalar (if b then 1 else 0))"
| "jnp_array (JList xs) = Inr (Vec xs)"
| "jnp_array JNull = Inl (TypeError ''None is not a valid array value'')"
| "jnp_array (JStr s) = Inl (TypeError ''str is not a valid array value'')"

text \<open>\<^verbatim>\<open>float(beta)\<close> of an array: a scalar, or a vector of one element.\<close>

fun py_float :: "jarr \<Rightarrow> exn + real" where
  "py_float (Scalar x) = Inr x"
| "py_float (Vec [x]) = Inr x"
| "py_float (Vec xs) = Inl (TypeError ''only length-1 arrays can be converted to Python scalars'')"

section \<open>Energy model\<close>

record ising_ebm =
  m_nodes :: "nat list"
  m_edges :: "(nat \<times> nat) list"
  m_biases :: "real list"
  m_weights :: "real list"
  m_beta :: real

text \<open>
  Modelled from the spec: the class \<^verbatim>\<open>IsingEBM\<close> of the sampling library is not part of
  the repository. Spec section 3: the model owns the node list, the edge list with
  weights, one bias per node and a scalar \<open>\<beta>\<close>, with \<^verbatim>\<open>len(biases) == len(nodes)\<close> and
  \<^verbatim>\<open>len(weights) == len(edges)\<close>; section 4.1: construction fails if bias/weight array
  lengths mismatch the node/edge counts; section 7: this is a configuration error.
\<close>

definition IsingEBM ::
  "nat list \<Rightarrow> (nat \<times> nat) list \<Rightarrow> jarr \<Rightarrow> jarr \<Rightarrow> jarr \<Rightarrow> exn + ising_ebm" where
  "IsingEBM nodes edges biases weights beta =
     (case biases of
        Scalar x \<Rightarrow> Inl (ConfigurationError ''biases must hold one value per node'')
      | Vec bs \<Rightarrow>
          if length bs \<noteq> length nodes
          then Inl (ConfigurationError ''biases length does not match the number of nodes'')
          else
            (case weights of
               Scalar x \<Rightarrow> Inl (ConfigurationError ''weights must hold one value per edge'')
             | Vec ws \<Rightarrow>
                 if length ws \<noteq> length edges
                 then Inl (ConfigurationError ''weights length does not match the number of edges'')
                 else
                   (case beta of
                      Vec xs \<Rightarrow> Inl (ConfigurationError ''beta must be a scalar'')
                    | Scalar b \<Rightarrow>
                        Inr \<lparr>m_nodes = nodes, m_edges = edges, m_biases = bs,
                             m_weights = ws, m_beta = b\<rparr>)))"

text \<open>
  Modelled from the spec (section 4.1): the local field of a target node,
  \<open>h = \<beta> * (b_target + \<Sum> w_edge * s_neighbor)\<close>, the sum over the edges at the target.
\<close>

definition local_field :: "ising_ebm \<Rightarrow> int list \<Rightarrow> nat \<Rightarrow> real" where
  "local_field m s t =
     m_beta m * (m_biases m ! t +
       sum_list (map (\<lambda>((i, j), w).
           (if i = t then w * of_int (s ! j) else 0) + (if j = t then w * of_int (s ! i) else 0))
         (zip (m_edges m) (m_weights m))))"

section \<open>Random stream\<close>

text \<open>
  Modelled from the spec (section 4.3): the random library is not part of the repository
  and the spec gives it by contract only, so it is a parameter. \<open>rs_key\<close> makes the root
  stream of an integer seed, \<open>rs_split k i\<close> is the \<open>i\<close>-th sub-seed of a split of \<open>k\<close>
  (a pure function of its input), \<open>rs_uniform k\<close> is the uniform draw of the slot \<open>k\<close>.
\<close>

record 'k random_stream =
  rs_key :: "int \<Rightarrow> 'k"
  rs_split :: "'k \<Rightarrow> nat \<Rightarrow> 'k"
  rs_uniform :: "'k \<Rightarrow> real"

text \<open>\<^verbatim>\<open>split(seed, n) -> [seed_1 .. seed_n]\<close>\<close>

definition split :: "'k random_stream \<Rightarrow> 'k \<Rightarrow> nat \<Rightarrow> 'k list" where
  "split rs k n = map (rs_split rs k) [0..<n]"

text \<open>\<^verbatim>\<open>jax.random.key(random_key)\<close>: the seed is an integer.\<close>

definition random_key_of :: "'k random_stream \<Rightarrow> jval \<Rightarrow> exn + 'k" where
  "random_key_of rs v = (case py_int v of Inl e \<Rightarrow> Inl e | Inr seed \<Rightarrow> Inr (rs_key rs seed))"

section \<open>State initializer\<close>

text \<open>
  Modelled from the spec (section 4.4): \<^verbatim>\<open>hinton_init\<close> is not part of the repository.
  The initial joint state has one spin per node, the sign of the node's bias, and a
  uniform draw from the initializer's sub-seed breaks the tie of a zero bias.
\<close>

definition hinton_init ::
  "'k random_stream \<Rightarrow> 'k \<Rightarrow> ising_ebm \<Rightarrow> nat list list \<Rightarrow> int list" where
  "hinton_init rs k m blocks =
     map (\<lambda>t. if 0 < m_biases m ! t then 1
              else if m_biases m ! t < 0 then - 1
              else if rs_uniform rs (rs_split rs k t) < 1 / 2 then 1 else - 1)
       (m_nodes m)"

section \<open>Block-Gibbs sampler\<close>

text \<open>
  Modelled from the spec (sections 4.5 and 4.6): \<^verbatim>\<open>SamplingSchedule\<close>,
  \<^verbatim>\<open>IsingSamplingProgram\<close> and \<^verbatim>\<open>sample_states\<close> are not part of the repository.
\<close>

record sampling_schedule =
  sch_n_warmup :: int
  sch_n_samples :: int
  sch_steps_per_sample :: int

text \<open>Three integers, with the validation that the recorded sample count is not negative.\<close>

definition SamplingSchedule :: "jval \<Rightarrow> jval \<Rightarrow> jval \<Rightarrow> exn + sampling_schedule" where
  "SamplingSchedule n_warmup n_samples steps_per_sample =
     (case py_int n_warmup of Inl e \<Rightarrow> Inl e | Inr w \<Rightarrow>
     (case py_int n_samples of Inl e \<Rightarrow> Inl e | Inr n \<Rightarrow>
     (case py_int steps_per_sample of Inl e \<Rightarrow> Inl e | Inr t \<Rightarrow>
        if n < 0 then Inl (ConfigurationError ''n_samples must not be negative'')
        else Inr \<lparr>sch_n_warmup = w, sch_n_samples = n, sch_steps_per_sample = t\<rparr>)))"

record sampling_program =
  sp_model :: ising_ebm
  sp_free :: "nat list list"
  sp_clamped :: "nat list list"

definition IsingSamplingProgram ::
  "ising_ebm \<Rightarrow> nat list list \<Rightarrow> nat list list \<Rightarrow> sampling_program" where
  "IsingSamplingProgram model free clamped =
     \<lparr>sp_model = model, sp_free = free, sp_clamped = clamped\<rparr>"

definition sigmoid :: "real \<Rightarrow> real" where
  "sigmoid x = 1 / (1 + exp (- x))"

text \<open>Per-node resampling: \<open>+1\<close> if \<open>u < sigmoid(2h)\<close>, else \<open>-1\<close>.\<close>

definition resample :: "real \<Rightarrow> real \<Rightarrow> int" where
  "resample h u = (if u < sigmoid (2 * h) then 1 else - 1)"

text \<open>
  One block update: every node of the block is resampled from the state as it is before
  the update, each with the draw of its own slot; then the new values are written back.
\<close>

definition update_block ::
  "'k random_stream \<Rightarrow> ising_ebm \<Rightarrow> 'k \<Rightarrow> nat list \<Rightarrow> int list \<Rightarrow> int list" where
  "update_block rs m k block s =
     fold (\<lambda>(t, v) s'. s'[t := v])
       (map (\<lambda>(p, t). (t, resample (local_field m s t) (rs_uniform rs (rs_split rs k p))))
          (enumerate 0 block))
       s"

text \<open>One sweep: one pass over all blocks in their order, one sub-stream per update.\<close>

definition sweep ::
  "'k random_stream \<Rightarrow> ising_ebm \<Rightarrow> nat list list \<Rightarrow> 'k \<Rightarrow> int list \<Rightarrow> int list" where
  "sweep rs m blocks k s =
     fold (\<lambda>(b, block) s'. update_block rs m (rs_split rs k b) block s') (enumerate 0 blocks) s"

text \<open>\<open>n\<close> sweeps; the stream is split once per sweep and carried on.\<close>

fun run_sweeps ::
  "'k random_stream \<Rightarrow> ising_ebm \<Rightarrow> nat list list \<Rightarrow> nat \<Rightarrow> 'k \<Rightarrow> int list \<Rightarrow> 'k \<times> int list" where
  "run_sweeps rs m blocks 0 k s = (k, s)"
| "run_sweeps rs m blocks (Suc n) k s =
     run_sweeps rs m blocks n (rs_split rs k 0) (sweep rs m blocks (rs_split rs k 1) s)"

text \<open>
  Repeat \<open>samples\<close> times: perform \<open>steps\<close> sweeps, then append a snapshot of the joint
  state (the full configuration) to the output.
\<close>

fun record_samples ::
  "'k random_stream \<Rightarrow> ising_ebm \<Rightarrow> nat list list \<Rightarrow> nat \<Rightarrow> nat \<Rightarrow> 'k \<Rightarrow> int list \<Rightarrow> int list list" where
  "record_samples rs m blocks steps 0 k s = []"
| "record_samples rs m blocks steps (Suc n) k s =
     (case run_sweeps rs m blocks steps k s of
        (k', s') \<Rightarrow> s' # record_samples rs m blocks steps n k' s')"

text \<open>The joint state after the warmup sweeps, with the stream as it stands then.\<close>

definition warmup ::
  "'k random_stream \<Rightarrow> sampling_program \<Rightarrow> sampling_schedule \<Rightarrow> 'k \<Rightarrow> int list \<Rightarrow> 'k \<times> int list" where
  "warmup rs program schedule k init_state =
     run_sweeps rs (sp_model program) (sp_free program) (nat (sch_n_warmup schedule)) k init_state"

text \<open>
  \<^verbatim>\<open>sample_states(key, program, schedule, init_state, state_clamp, nodes_to_sample)\<close>:
  the warmup sweeps produce no output, then the samples are recorded. The handlers pass
  no clamped state and observe the one block of all nodes, the full configuration.
\<close>

definition sample_states ::
  "'k random_stream \<Rightarrow> 'k \<Rightarrow> sampling_program \<Rightarrow> sampling_schedule \<Rightarrow> int list \<Rightarrow>
     int list list \<Rightarrow> nat list list \<Rightarrow> int list list" where
  "sample_states rs k program schedule init_state state_clamp nodes_to_sample =
     (case warmup rs program schedule k init_state of
        (k1, s1) \<Rightarrow>
          record_samples rs (sp_model program) (sp_free program)
            (nat (sch_steps_per_sample schedule)) (nat (sch_n_samples schedule)) k1 s1)"

section \<open>HTTP handlers\<close>

record model_info =
  mi_n_nodes :: jval
  mi_beta :: real
  mi_n_edges :: nat

record ising_body =
  r_samples :: "int list list"
  r_final_state :: "int list option"
  r_n_samples :: nat
  r_model_info :: model_info

text \<open>
  The responses of the four routes. \<open>Failure error error_type\<close> is the body of the
  \<^verbatim>\<open>except\<close> branch, sent with status 400.
\<close>

datatype response =
    HealthOk string string
  | IsingOk ising_body
  | StreamOk "int list option" "int list option"
  | ModelInfoOk "string list" "(string \<times> string) list"
  | Failure string string

text \<open>\<^verbatim>\<open>health\<close>\<close>

definition health :: response where
  "health = HealthOk ''ok'' ''THRML API is running''"

text \<open>The \<^verbatim>\<open>try\<close> block of \<^verbatim>\<open>sample_ising\<close>.\<close>

definition sample_ising_try :: "'k random_stream \<Rightarrow> payload \<Rightarrow> exn + response" where
  "sample_ising_try rs data =
     (let n_nodes = dict_get data ''n_nodes'' (JInt 5) in
     (case py_int n_nodes of Inl e \<Rightarrow> Inl e | Inr n \<Rightarrow>
     (case jnp_array (dict_get data ''weights'' (JList (py_repeat (1 / 2) (n - 1)))) of
        Inl e \<Rightarrow> Inl e | Inr weights \<Rightarrow>
     (case jnp_array (dict_get data ''biases'' (JList (py_repeat 0 n))) of
        Inl e \<Rightarrow> Inl e | Inr biases \<Rightarrow>
     (case jnp_array (dict_get data ''beta'' (JNum 1)) of
        Inl e \<Rightarrow> Inl e | Inr beta \<Rightarrow>
     (let n_warmup = dict_get data ''n_warmup'' (JInt 100);
          n_samples = dict_get data ''n_samples'' (JInt 1000);
          steps_per_sample = dict_get data ''steps_per_sample'' (JInt 2);
          random_key = dict_get data ''random_key'' (JInt 0);
          nodes = chain_nodes n;
          edges = chain_edges nodes n
      in
     (case IsingEBM nodes edges biases weights beta of Inl e \<Rightarrow> Inl e | Inr model \<Rightarrow>
     (let blocks = free_blocks nodes;
          program = IsingSamplingProgram model blocks []
      in
     (case random_key_of rs random_key of Inl e \<Rightarrow> Inl e | Inr key \<Rightarrow>
     (let k_init = rs_split rs key 0;
          k_samp = rs_split rs key 1;
          init_state = hinton_init rs k_init model blocks
      in
     (case SamplingSchedule n_warmup n_samples steps_per_sample of
        Inl e \<Rightarrow> Inl e | Inr schedule \<Rightarrow>
     (let samples = sample_states rs k_samp program schedule init_state [] [nodes];
          samples_list = samples;
          final_state = (if length samples > 0 then Some (last samples) else None)
      in
     (case py_float beta of Inl e \<Rightarrow> Inl e | Inr b \<Rightarrow>
        Inr (IsingOk
          \<lparr>r_samples = samples_list,
           r_final_state = final_state,
           r_n_samples = length samples,
           r_model_info =
             \<lparr>mi_n_nodes = n_nodes, mi_beta = b, mi_n_edges = length edges\<rparr>\<rparr>))))))))))))))"

text \<open>\<^verbatim>\<open>sample_ising\<close>: the \<^verbatim>\<open>try\<close> block, and the \<^verbatim>\<open>except Exception\<close> branch.\<close>

definition sample_ising :: "'k random_stream \<Rightarrow> payload \<Rightarrow> response" where
  "sample_ising rs data =
     (case sample_ising_try rs data of
        Inl e \<Rightarrow> Failure (exn_msg e) (exn_name e)
      | Inr r \<Rightarrow> r)"

text \<open>The \<^verbatim>\<open>try\<close> block of \<^verbatim>\<open>sample_ising_stream\<close>.\<close>

definition sample_ising_stream_try :: "'k random_stream \<Rightarrow> payload \<Rightarrow> exn + response" where
  "sample_ising_stream_try rs data =
     (let n_nodes = dict_get data ''n_nodes'' (JInt 5) in
     (case py_int n_nodes of Inl e \<Rightarrow> Inl e | Inr n \<Rightarrow>
     (case jnp_array (dict_get data ''weights'' (JList (py_repeat (1 / 2) (n - 1)))) of
        Inl e \<Rightarrow> Inl e | Inr weights \<Rightarrow>
     (case jnp_array (dict_get data ''biases'' (JList (py_repeat 0 n))) of
        Inl e \<Rightarrow> Inl e | Inr biases \<Rightarrow>
     (case jnp_array (dict_get data ''beta'' (JNum 1)) of
        Inl e \<Rightarrow> Inl e | Inr beta \<Rightarrow>
     (let steps_per_sample = dict_get data ''steps_per_sample'' (JInt 2);
          random_key = dict_get data ''random_key'' (JInt 0);
          nodes = chain_nodes n;
          edges = chain_edges nodes n
      in
     (case IsingEBM nodes edges biases weights beta of Inl e \<Rightarrow> Inl e | Inr model \<Rightarrow>
     (let blocks = free_blocks nodes;
          program = IsingSamplingProgram model blocks []
      in
     (case random_key_of rs random_key of Inl e \<Rightarrow> Inl e | Inr key \<Rightarrow>
     (let k_init = rs_split rs key 0;
          k_samp = rs_split rs key 1;
          init_state = hinton_init rs k_init model blocks
      in
     (case SamplingSchedule (JInt 0) (JInt 1) steps_per_sample of
        Inl e \<Rightarrow> Inl e | Inr schedule \<Rightarrow>
     (let samples = sample_states rs k_samp program schedule init_state [] [nodes]
      in
        Inr (StreamOk
          (if length samples > 0 then Some (samples ! 0) else None)
          (if length samples > 0 then Some (last samples) else None))))))))))))))"

definition sample_ising_stream :: "'k random_stream \<Rightarrow> payload \<Rightarrow> response" where
  "sample_ising_stream rs data =
     (case sample_ising_stream_try rs data of
        Inl e \<Rightarrow> Failure (exn_msg e) (exn_name e)
      | Inr r \<Rightarrow> r)"

text \<open>\<^verbatim>\<open>model_info\<close>\<close>

definition model_info_route :: response where
  "model_info_route =
     ModelInfoOk [''ising'']
       [(''n_nodes'', ''int - Number of nodes in the chain''),
        (''weights'', ''array - Edge weights (length: n_nodes - 1)''),
        (''biases'', ''array - Node biases (length: n_nodes)''),
        (''beta'', ''float - Temperature parameter (1/T)''),
        (''n_warmup'', ''int - Number of warmup steps''),
        (''n_samples'', ''int - Number of samples to generate''),
        (''steps_per_sample'', ''int - Gibbs steps per sample'')]"

text \<open>A joint state holds one spin per node, each \<open>+1\<close> or \<open>-1\<close>.\<close>

definition spins :: "int list \<Rightarrow> bool" where
  "spins s = list_all (\<lambda>v. v = 1 \<or> v = - 1) s"

section \<open>Well-formed payloads\<close>

text \<open>
  The values a payload fixes for the chain, as the handlers read them: the node count,
  the weight and bias vectors, \<open>\<beta>\<close> and the seed. \<open>read_config\<close> gives them when every
  field has a value of its kind and the lengths fit the chain (one bias per node of
  \<^verbatim>\<open>range(n_nodes)\<close>, one weight per edge of \<^verbatim>\<open>range(n_nodes - 1)\<close>), \<open>None\<close> otherwise.
\<close>

record chain_config =
  c_n_nodes :: int
  c_weights :: "real list"
  c_biases :: "real list"
  c_beta :: real
  c_seed :: int

definition read_config :: "payload \<Rightarrow> chain_config option" where
  "read_config data =
     (case py_int (dict_get data ''n_nodes'' (JInt 5)) of Inl e \<Rightarrow> None | Inr n \<Rightarrow>
     (case dict_get data ''weights'' (JList (py_repeat (1 / 2) (n - 1))) of JList ws \<Rightarrow>
     (case dict_get data ''biases'' (JList (py_repeat 0 n)) of JList bs \<Rightarrow>
     (case jnp_array (dict_get data ''beta'' (JNum 1)) of Inr (Scalar b) \<Rightarrow>
     (case py_int (dict_get data ''random_key'' (JInt 0)) of Inr seed \<Rightarrow>
        if length ws = nat (n - 1) \<and> length bs = nat n
        then Some \<lparr>c_n_nodes = n, c_weights = ws, c_biases = bs, c_beta = b, c_seed = seed\<rparr>
        else None
      | Inl e \<Rightarrow> None)
      | _ \<Rightarrow> None)
      | _ \<Rightarrow> None)
      | _ \<Rightarrow> None))"

text \<open>The schedule a payload fixes for \<^verbatim>\<open>sample_ising\<close>, when it is a valid one.\<close>

definition read_schedule :: "payload \<Rightarrow> sampling_schedule option" where
  "read_schedule data =
     (case SamplingSchedule (dict_get data ''n_warmup'' (JInt 100))
             (dict_get data ''n_samples'' (JInt 1000))
             (dict_get data ''steps_per_sample'' (JInt 2)) of
        Inl e \<Rightarrow> None | Inr sch \<Rightarrow> Some sch)"

text \<open>The objects the handlers build from a well-formed payload.\<close>

definition chain_model :: "chain_config \<Rightarrow> ising_ebm" where
  "chain_model c =
     \<lparr>m_nodes = chain_nodes (c_n_nodes c),
      m_edges = chain_edges (chain_nodes (c_n_nodes c)) (c_n_nodes c),
      m_biases = c_biases c, m_weights = c_weights c, m_beta = c_beta c\<rparr>"

definition chain_program :: "chain_config \<Rightarrow> sampling_program" where
  "chain_program c = IsingSamplingProgram (chain_model c) (free_blocks (chain_nodes (c_n_nodes c))) []"

definition k_init :: "'k random_stream \<Rightarrow> chain_config \<Rightarrow> 'k" where
  "k_init rs c = rs_split rs (rs_key rs (c_seed c)) 0"

definition k_samp :: "'k random_stream \<Rightarrow> chain_config \<Rightarrow> 'k" where
  "k_samp rs c = rs_split rs (rs_key rs (c_seed c)) 1"

definition chain_init :: "'k random_stream \<Rightarrow> chain_config \<Rightarrow> int list" where
  "chain_init rs c =
     hinton_init rs (k_init rs c) (chain_model c) (free_blocks (chain_nodes (c_n_nodes c)))"

definition chain_samples :: "'k random_stream \<Rightarrow> chain_config \<Rightarrow> sampling_schedule \<Rightarrow> int list list" where
  "chain_samples rs c sch =
     sample_states rs (k_samp rs c) (chain_program c) sch (chain_init rs c) []
       [chain_nodes (c_n_nodes c)]"

text \<open>
  The joint state after the warmup sweeps of a well-formed payload: \<open>w\<close> sweeps from the
  initial state, on the sampling sub-stream.
\<close>

definition post_warmup :: "'k random_stream \<Rightarrow> chain_config \<Rightarrow> int \<Rightarrow> int list" where
  "post_warmup rs c w =
     snd (run_sweeps rs (chain_model c) (free_blocks (chain_nodes (c_n_nodes c))) (nat w)
            (k_samp rs c) (chain_init rs c))"

text \<open>The keys read by \<^verbatim>\<open>sample_ising_stream\<close>.\<close>

definition stream_fields :: "string list" where
  "stream_fields =
     [''n_nodes'', ''weights'', ''biases'', ''beta'', ''steps_per_sample'', ''random_key'']"

text \<open>The fields whose defaults section 6 of the spec documents.\<close>

definition defaulted_fields :: "string set" where
  "defaulted_fields = {''beta'', ''n_warmup'', ''n_samples'', ''steps_per_sample'', ''random_key''}"

section \<open>Concrete inputs\<close>

text \<open>
  A random stream over the naturals, to run the handlers on concrete payloads: the seed
  is the stream, the sub-seed at position \<open>i\<close> of the stream \<open>k\<close> is \<open>5 * k + 3 * i + 1\<close>,
  and the draw of a slot is \<open>0\<close> or \<open>1\<close> by its residue modulo four.
\<close>

definition test_stream :: "nat random_stream" where
  "test_stream =
     \<lparr>rs_key = (\<lambda>seed. nat \<bar>seed\<bar>),
      rs_split = (\<lambda>k i. 5 * k + 3 * i + 1),
      rs_uniform = (\<lambda>k. if k mod 4 < 2 then 0 else 1)\<rparr>"

text \<open>The scenario of section 8 of the spec.\<close>

definition scenario :: payload where
  "scenario =
     [''n_nodes'' \<mapsto> JInt 3, ''weights'' \<mapsto> JList [1, 1], ''biases'' \<mapsto> JList [0, 0, 0],
      ''beta'' \<mapsto> JNum 1, ''n_warmup'' \<mapsto> JInt 50, ''n_samples'' \<mapsto> JInt 5,
      ''steps_per_sample'' \<mapsto> JInt 1, ''random_key'' \<mapsto> JInt 42]"

text \<open>A chain of two nodes, and the configuration it fixes when nothing else is sent.\<close>

definition chain2 :: payload where
  "chain2 = [''n_nodes'' \<mapsto> JInt 2, ''weights'' \<mapsto> JList [1], ''biases'' \<mapsto> JList [0, 1]]"

definition config2 :: chain_config where
  "config2 = \<lparr>c_n_nodes = 2, c_weights = [1], c_biases = [0, 1], c_beta = 1, c_seed = 0\<rparr>"

section \<open>Block partition of a chain\<close>

lemma slice2_upt:
  "slice2 [a..<b] = filter (\<lambda>i. even (i - a)) [a..<b]"
proof (induction "b - a" arbitrary: a rule: less_induct)
  case less
  show ?case
  proof (cases "b \<le> a")
    case True
    then show ?thesis by simp
  next
    case False
    then have ab: "a < b" by simp
    show ?thesis
    proof (cases "Suc a < b")
      case False
      with ab have "[a..<b] = [a]" by (simp add: upt_conv_Cons)
      then show ?thesis by simp
    next
      case True
      then have split: "[a..<b] = a # Suc a # [Suc (Suc a)..<b]"
        by (simp add: upt_conv_Cons)
      have ih: "slice2 [Suc (Suc a)..<b] = filter (\<lambda>i. even (i - Suc (Suc a))) [Suc (Suc a)..<b]"
        using less [of "Suc (Suc a)"] True by simp
      have same: "filter (\<lambda>i. even (i - Suc (Suc a))) [Suc (Suc a)..<b]
                = filter (\<lambda>i. even (i - a)) [Suc (Suc a)..<b]"
        by (rule filter_cong) auto
      have lhs: "slice2 [a..<b] = a # slice2 [Suc (Suc a)..<b]"
        by (simp add: split)
      have rhs: "filter (\<lambda>i. even (i - a)) [a..<b]
               = a # filter (\<lambda>i. even (i - a)) [Suc (Suc a)..<b]"
        by (simp add: split)
      show ?thesis
        by (simp only: lhs rhs ih same)
    qed
  qed
qed

lemma chain_nodes_upt: "chain_nodes n = [0..<nat n]"
  by (simp add: chain_nodes_def py_range_def)

lemma chain_edges_consecutive:
  "chain_edges (chain_nodes n) n = map (\<lambda>i. (i, Suc i)) [0..<nat (n - 1)]"
  by (auto simp: chain_edges_def chain_nodes_upt py_range_def)

lemma slice2_evens: "slice2 [0..<N] = filter even [0..<N]"
  using slice2_upt [of 0 N] by simp

lemma drop1_upt: "drop 1 [0..<N] = [1..<N]"
  by (simp add: drop_upt)

lemma slice2_odds: "slice2 (drop 1 [0..<N]) = filter odd [0..<N]"
proof -
  have a: "slice2 [1..<N] = filter (\<lambda>i. even (i - 1)) [1..<N]"
    by (rule slice2_upt)
  have b: "filter (\<lambda>i. even (i - 1)) [1..<N] = filter odd [1..<N]"
    by (rule filter_cong) auto
  have c: "filter odd [0..<N] = filter odd [1..<N]"
  proof (cases "N = 0")
    case True
    then show ?thesis by simp
  next
    case False
    then have "[0..<N] = 0 # [1..<N]" by (simp add: upt_conv_Cons)
    then show ?thesis by simp
  qed
  show ?thesis by (simp only: drop1_upt a b c)
qed

lemma free_blocks_chain:
  "free_blocks (chain_nodes n) = [filter even (chain_nodes n), filter odd (chain_nodes n)]"
  by (simp only: free_blocks_def chain_nodes_upt slice2_evens slice2_odds)

text \<open>
  Claim C2. For a chain of \<open>n\<close> nodes, whose edges join the consecutive nodes \<open>i\<close> and
  \<open>i + 1\<close>, the two blocks built by the handlers are the even-indexed nodes and the
  odd-indexed nodes; together they hold every node exactly once, and no edge of the chain
  has both ends in one block.
\<close>

theorem C2_block_partition:
  "free_blocks (chain_nodes n) = [filter even (chain_nodes n), filter odd (chain_nodes n)]
   \<and> chain_nodes n = [0..<nat n]
   \<and> chain_edges (chain_nodes n) n = map (\<lambda>i. (i, i + 1)) [0..<nat (n - 1)]
   \<and> distinct (concat (free_blocks (chain_nodes n)))
   \<and> set (concat (free_blocks (chain_nodes n))) = set (chain_nodes n)
   \<and> (\<forall>(i, j) \<in> set (chain_edges (chain_nodes n) n).
        \<forall>b \<in> set (free_blocks (chain_nodes n)). \<not> (i \<in> set b \<and> j \<in> set b))"
proof -
  have fb: "free_blocks [0..<nat n] = [filter even [0..<nat n], filter odd [0..<nat n]]"
    using free_blocks_chain [of n] by (simp add: chain_nodes_upt)
  have ce: "chain_edges [0..<nat n] n = map (\<lambda>i. (i, Suc i)) [0..<nat (n - 1)]"
    using chain_edges_consecutive [of n] by (simp add: chain_nodes_upt)
  have d: "distinct (concat (free_blocks (chain_nodes n)))"
    by (auto simp: chain_nodes_upt fb)
  have s: "set (concat (free_blocks (chain_nodes n))) = set (chain_nodes n)"
    by (auto simp: chain_nodes_upt fb)
  have e: "\<forall>(i, j) \<in> set (chain_edges (chain_nodes n) n).
        \<forall>b \<in> set (free_blocks (chain_nodes n)). \<not> (i \<in> set b \<and> j \<in> set b)"
    by (auto simp: chain_nodes_upt fb ce)
  show ?thesis
    using free_blocks_chain [of n] chain_nodes_upt [of n] chain_edges_consecutive [of n] d s e
    by simp
qed

theorem C2_block_partition_witness:
  "free_blocks (chain_nodes 5) = [[0, 2, 4], [1, 3]]
   \<and> chain_edges (chain_nodes 5) 5 = [(0, 1), (1, 2), (2, 3), (3, 4)]
   \<and> distinct (concat (free_blocks (chain_nodes 5)))
   \<and> set (concat (free_blocks (chain_nodes 5))) = {0, 1, 2, 3, 4}
   \<and> \<not> (0 \<in> set (free_blocks (chain_nodes 5) ! 0) \<and> 1 \<in> set (free_blocks (chain_nodes 5) ! 0))
   \<and> \<not> (3 \<in> set (free_blocks (chain_nodes 5) ! 1) \<and> 4 \<in> set (free_blocks (chain_nodes 5) ! 1))"
proof -
  have n: "chain_nodes 5 = [0, 1, 2, 3, 4]"
    by (simp add: chain_nodes_def py_range_def upt_conv_Cons)
  have e: "chain_edges [0, Suc 0, 2, 3, 4] 5 = [(0, 1), (1, 2), (2, 3), (3, 4)]"
    by (simp add: chain_edges_def py_range_def upt_conv_Cons)
  have f: "free_blocks [0, Suc 0, 2, 3, 4] = [[0, 2, 4], [1, 3]]"
    by (simp add: free_blocks_def)
  have t: "\<forall>(i, j) \<in> set (chain_edges (chain_nodes 5) 5).
        \<forall>b \<in> set (free_blocks (chain_nodes 5)). \<not> (i \<in> set b \<and> j \<in> set b)"
    using C2_block_partition [of 5] by blast
  show ?thesis
    using t by (auto simp: n e f)
qed

section \<open>Invariants of the sampler\<close>

lemma update_block_length [simp]: "length (update_block rs m k block s) = length s"
proof -
  have "length (fold (\<lambda>(t, v) s'. s'[t := v]) xs s) = length s" for xs :: "(nat \<times> int) list"
    by (induction xs arbitrary: s) (auto split: prod.splits)
  then show ?thesis by (simp add: update_block_def)
qed

lemma spins_update: "spins s \<Longrightarrow> v = 1 \<or> v = - 1 \<Longrightarrow> spins (s[t := v])"
  unfolding spins_def list_all_iff using set_update_subset_insert [of s t v] by auto

lemma fold_write_spins:
  "spins s \<Longrightarrow> \<forall>(t, v) \<in> set xs. v = 1 \<or> v = - 1 \<Longrightarrow> spins (fold (\<lambda>(t, v) s'. s'[t := v]) xs s)"
  by (induction xs arbitrary: s) (auto simp: spins_update)

lemma update_block_spins: "spins s \<Longrightarrow> spins (update_block rs m k block s)"
  unfolding update_block_def
  by (rule fold_write_spins) (auto split: if_splits simp: resample_def)

lemma sweep_length [simp]: "length (sweep rs m blocks k s) = length s"
proof -
  have "length (fold (\<lambda>(b, block) s'. update_block rs m (rs_split rs k b) block s') xs s) = length s" for xs
    by (induction xs arbitrary: s) (auto split: prod.splits)
  then show ?thesis by (simp add: sweep_def)
qed

lemma sweep_spins: "spins s \<Longrightarrow> spins (sweep rs m blocks k s)"
proof -
  have "spins s \<Longrightarrow> spins (fold (\<lambda>(b, block) s'. update_block rs m (rs_split rs k b) block s') xs s)" for xs
    by (induction xs arbitrary: s) (auto split: prod.splits simp: update_block_spins)
  then show "spins s \<Longrightarrow> spins (sweep rs m blocks k s)" by (simp add: sweep_def)
qed

lemma run_sweeps_length [simp]: "length (snd (run_sweeps rs m blocks n k s)) = length s"
  by (induction n arbitrary: k s) auto

lemma run_sweeps_spins: "spins s \<Longrightarrow> spins (snd (run_sweeps rs m blocks n k s))"
  by (induction n arbitrary: k s) (auto simp: sweep_spins)

lemma record_samples_length [simp]: "length (record_samples rs m blocks steps n k s) = n"
  by (induction n arbitrary: k s) (auto split: prod.splits)

lemma record_samples_each:
  "spins s \<Longrightarrow> x \<in> set (record_samples rs m blocks steps n k s) \<Longrightarrow> length x = length s \<and> spins x"
proof (induction n arbitrary: k s)
  case 0
  then show ?case by simp
next
  case (Suc n)
  obtain k' s' where r: "run_sweeps rs m blocks steps k s = (k', s')" by force
  have l: "length s' = length s" using run_sweeps_length [of rs m blocks steps k s] r by simp
  have sp: "spins s'" using run_sweeps_spins [OF Suc.prems(1), of rs m blocks steps k] r by simp
  from Suc.prems(2) r have "x = s' \<or> x \<in> set (record_samples rs m blocks steps n k' s')" by simp
  then show ?case using Suc.IH [OF sp] l sp by auto
qed

lemma record_samples_no_steps: "record_samples rs m blocks 0 n k s = replicate n s"
  by (induction n) auto

lemma hinton_init_length [simp]: "length (hinton_init rs k m blocks) = length (m_nodes m)"
  by (simp add: hinton_init_def)

lemma hinton_init_spins: "spins (hinton_init rs k m blocks)"
  by (auto simp: hinton_init_def spins_def list_all_iff)

lemma chain_lengths [simp]:
  "length (chain_nodes n) = nat n" "length (chain_edges nodes n) = nat (n - 1)"
  by (simp_all add: chain_nodes_def chain_edges_def py_range_def)

lemma read_config_SomeD:
  assumes "read_config data = Some c"
  shows "py_int (dict_get data ''n_nodes'' (JInt 5)) = Inr (c_n_nodes c)"
    and "dict_get data ''weights'' (JList (py_repeat (1 / 2) (c_n_nodes c - 1))) = JList (c_weights c)"
    and "dict_get data ''biases'' (JList (py_repeat 0 (c_n_nodes c))) = JList (c_biases c)"
    and "jnp_array (dict_get data ''beta'' (JNum 1)) = Inr (Scalar (c_beta c))"
    and "py_int (dict_get data ''random_key'' (JInt 0)) = Inr (c_seed c)"
    and "length (c_weights c) = nat (c_n_nodes c - 1)"
    and "length (c_biases c) = nat (c_n_nodes c)"
  using assms unfolding read_config_def
  by (auto split: sum.splits jval.splits jarr.splits if_splits)

lemma sample_ising_try_ok:
  assumes c: "read_config data = Some c" and sch: "read_schedule data = Some sch"
  shows "sample_ising_try rs data =
     Inr (IsingOk
       \<lparr>r_samples = chain_samples rs c sch,
        r_final_state =
          (if length (chain_samples rs c sch) > 0 then Some (last (chain_samples rs c sch)) else None),
        r_n_samples = length (chain_samples rs c sch),
        r_model_info =
          \<lparr>mi_n_nodes = dict_get data ''n_nodes'' (JInt 5), mi_beta = c_beta c,
           mi_n_edges = nat (c_n_nodes c - 1)\<rparr>\<rparr>)"
proof -
  note d = read_config_SomeD [OF c]
  have s: "SamplingSchedule (dict_get data ''n_warmup'' (JInt 100))
             (dict_get data ''n_samples'' (JInt 1000))
             (dict_get data ''steps_per_sample'' (JInt 2)) = Inr sch"
    using sch by (simp add: read_schedule_def split: sum.splits)
  have m: "IsingEBM (chain_nodes (c_n_nodes c)) (chain_edges (chain_nodes (c_n_nodes c)) (c_n_nodes c))
             (Vec (c_biases c)) (Vec (c_weights c)) (Scalar (c_beta c)) = Inr (chain_model c)"
    using d(6,7) by (simp add: IsingEBM_def chain_model_def)
  show ?thesis
    unfolding sample_ising_try_def Let_def
    by (simp add: d m s random_key_of_def chain_samples_def chain_program_def chain_init_def
        k_init_def k_samp_def)
qed

section \<open>The handlers on well-formed and on malformed payloads\<close>

lemma sample_ising_ok:
  assumes "read_config data = Some c" and "read_schedule data = Some sch"
  shows "sample_ising rs data =
     IsingOk
       \<lparr>r_samples = chain_samples rs c sch,
        r_final_state =
          (if length (chain_samples rs c sch) > 0 then Some (last (chain_samples rs c sch)) else None),
        r_n_samples = length (chain_samples rs c sch),
        r_model_info =
          \<lparr>mi_n_nodes = dict_get data ''n_nodes'' (JInt 5), mi_beta = c_beta c,
           mi_n_edges = nat (c_n_nodes c - 1)\<rparr>\<rparr>"
  by (simp add: sample_ising_def sample_ising_try_ok [OF assms])

lemma jnp_array_VecD: "jnp_array v = Inr (Vec xs) \<Longrightarrow> v = JList xs"
  by (cases v) auto

lemma IsingEBM_InrD:
  assumes "IsingEBM nodes edges biases weights beta = Inr m"
  shows "\<exists>bs ws b. biases = Vec bs \<and> weights = Vec ws \<and> beta = Scalar b
           \<and> length bs = length nodes \<and> length ws = length edges"
  using assms unfolding IsingEBM_def
  by (auto split: jarr.splits if_splits)

lemma sample_ising_try_InrD:
  assumes "sample_ising_try rs data = Inr r"
  shows "read_config data \<noteq> None \<and> read_schedule data \<noteq> None"
proof -
  from assms obtain n weights biases beta model key schedule where
    n: "py_int (dict_get data ''n_nodes'' (JInt 5)) = Inr n"
    and w: "jnp_array (dict_get data ''weights'' (JList (py_repeat (1 / 2) (n - 1)))) = Inr weights"
    and b: "jnp_array (dict_get data ''biases'' (JList (py_repeat 0 n))) = Inr biases"
    and be: "jnp_array (dict_get data ''beta'' (JNum 1)) = Inr beta"
    and m: "IsingEBM (chain_nodes n) (chain_edges (chain_nodes n) n) biases weights beta = Inr model"
    and k: "random_key_of rs (dict_get data ''random_key'' (JInt 0)) = Inr key"
    and s: "SamplingSchedule (dict_get data ''n_warmup'' (JInt 100))
             (dict_get data ''n_samples'' (JInt 1000))
             (dict_get data ''steps_per_sample'' (JInt 2)) = Inr schedule"
    unfolding sample_ising_try_def Let_def
    by (auto split: sum.splits)
  from IsingEBM_InrD [OF m] obtain bs ws b0 where
    v: "biases = Vec bs" "weights = Vec ws" "beta = Scalar b0"
       "length bs = nat n" "length ws = nat (n - 1)"
    by auto
  from k obtain seed where sd: "py_int (dict_get data ''random_key'' (JInt 0)) = Inr seed"
    by (auto simp: random_key_of_def split: sum.splits)
  have 1: "dict_get data ''weights'' (JList (py_repeat (1 / 2) (n - 1))) = JList ws"
    using w v by (simp add: jnp_array_VecD)
  have 2: "dict_get data ''biases'' (JList (py_repeat 0 n)) = JList bs"
    using b v by (simp add: jnp_array_VecD)
  have 3: "jnp_array (dict_get data ''beta'' (JNum 1)) = Inr (Scalar b0)"
    using be v by simp
  have "read_config data \<noteq> None"
    using v(4,5) by (auto simp: read_config_def n 1 2 3 sd)
  moreover have "read_schedule data \<noteq> None"
    by (simp add: read_schedule_def s)
  ultimately show ?thesis by simp
qed

lemma chain_init_length: "length (chain_init rs c) = nat (c_n_nodes c)"
  by (simp add: chain_init_def chain_model_def)

lemma chain_init_spins: "spins (chain_init rs c)"
  by (simp add: chain_init_def hinton_init_spins)

lemma chain_samples_length: "length (chain_samples rs c sch) = nat (sch_n_samples sch)"
  by (simp add: chain_samples_def sample_states_def split: prod.splits)

lemma chain_samples_each:
  assumes "x \<in> set (chain_samples rs c sch)"
  shows "length x = nat (c_n_nodes c) \<and> spins x"
proof -
  obtain k1 s1 where w: "warmup rs (chain_program c) sch (k_samp rs c) (chain_init rs c) = (k1, s1)"
    by force
  have s1: "s1 = snd (warmup rs (chain_program c) sch (k_samp rs c) (chain_init rs c))"
    using w by simp
  have l: "length s1 = nat (c_n_nodes c)"
    unfolding s1 by (simp add: warmup_def chain_init_length)
  have s: "spins s1"
    unfolding s1 warmup_def by (rule run_sweeps_spins [OF chain_init_spins])
  from assms w have "x \<in> set (record_samples rs (sp_model (chain_program c))
      (sp_free (chain_program c)) (nat (sch_steps_per_sample sch)) (nat (sch_n_samples sch)) k1 s1)"
    by (simp add: chain_samples_def sample_states_def)
  from record_samples_each [OF s this] l show ?thesis by simp
qed

lemma chain_samples_no_steps:
  "sch_steps_per_sample sch = 0 \<Longrightarrow>
   chain_samples rs c sch = replicate (nat (sch_n_samples sch)) (post_warmup rs c (sch_n_warmup sch))"
  by (simp add: chain_samples_def sample_states_def warmup_def post_warmup_def
      chain_program_def IsingSamplingProgram_def record_samples_no_steps split: prod.splits)

lemma read_schedule_SomeI:
  assumes "py_int (dict_get data ''n_warmup'' (JInt 100)) = Inr w"
    and "py_int (dict_get data ''n_samples'' (JInt 1000)) = Inr k"
    and "py_int (dict_get data ''steps_per_sample'' (JInt 2)) = Inr t"
    and "0 \<le> k"
  shows "read_schedule data =
     Some \<lparr>sch_n_warmup = w, sch_n_samples = k, sch_steps_per_sample = t\<rparr>"
  using assms by (simp add: read_schedule_def SamplingSchedule_def)

lemma read_schedule_SomeD:
  assumes "read_schedule data = Some sch"
  shows "py_int (dict_get data ''n_warmup'' (JInt 100)) = Inr (sch_n_warmup sch)"
    and "py_int (dict_get data ''n_samples'' (JInt 1000)) = Inr (sch_n_samples sch)"
    and "py_int (dict_get data ''steps_per_sample'' (JInt 2)) = Inr (sch_steps_per_sample sch)"
    and "0 \<le> sch_n_samples sch"
  using assms unfolding read_schedule_def SamplingSchedule_def
  by (auto split: sum.splits if_splits)

lemma sample_ising_cases:
  "(\<exists>c sch. read_config data = Some c \<and> read_schedule data = Some sch \<and>
      sample_ising rs data =
        IsingOk
          \<lparr>r_samples = chain_samples rs c sch,
           r_final_state =
             (if length (chain_samples rs c sch) > 0 then Some (last (chain_samples rs c sch))
              else None),
           r_n_samples = length (chain_samples rs c sch),
           r_model_info =
             \<lparr>mi_n_nodes = dict_get data ''n_nodes'' (JInt 5), mi_beta = c_beta c,
              mi_n_edges = nat (c_n_nodes c - 1)\<rparr>\<rparr>)
   \<or> ((read_config data = None \<or> read_schedule data = None) \<and>
       (\<exists>e. sample_ising rs data = Failure (exn_msg e) (exn_name e)))"
proof (cases "sample_ising_try rs data")
  case (Inl e)
  have "read_config data = None \<or> read_schedule data = None"
  proof (rule ccontr)
    assume "\<not> ?thesis"
    then obtain c sch where "read_config data = Some c" "read_schedule data = Some sch" by auto
    from sample_ising_try_ok [OF this, of rs] Inl show False by simp
  qed
  with Inl show ?thesis by (auto simp: sample_ising_def)
next
  case (Inr r)
  from sample_ising_try_InrD [OF this] obtain c sch where
    "read_config data = Some c" "read_schedule data = Some sch" by auto
  with sample_ising_ok [OF this, of rs] show ?thesis by blast
qed

lemma sample_states_one:
  "sample_states rs k program
     \<lparr>sch_n_warmup = 0, sch_n_samples = 1, sch_steps_per_sample = t\<rparr> init [] obs
   = [snd (run_sweeps rs (sp_model program) (sp_free program) (nat t) k init)]"
  by (simp add: sample_states_def warmup_def split: prod.splits)

lemma stream_schedule:
  "SamplingSchedule (JInt 0) (JInt 1) v =
     (case py_int v of Inl e \<Rightarrow> Inl e
      | Inr t \<Rightarrow> Inr \<lparr>sch_n_warmup = 0, sch_n_samples = 1, sch_steps_per_sample = t\<rparr>)"
  by (simp add: SamplingSchedule_def split: sum.splits)

lemma sample_ising_stream_try_ok:
  assumes c: "read_config data = Some c"
    and t: "py_int (dict_get data ''steps_per_sample'' (JInt 2)) = Inr t"
  shows "sample_ising_stream_try rs data =
     Inr (StreamOk
       (Some (snd (run_sweeps rs (chain_model c) (free_blocks (chain_nodes (c_n_nodes c))) (nat t)
                (k_samp rs c) (chain_init rs c))))
       (Some (snd (run_sweeps rs (chain_model c) (free_blocks (chain_nodes (c_n_nodes c))) (nat t)
                (k_samp rs c) (chain_init rs c)))))"
proof -
  note d = read_config_SomeD [OF c]
  have m: "IsingEBM (chain_nodes (c_n_nodes c)) (chain_edges (chain_nodes (c_n_nodes c)) (c_n_nodes c))
             (Vec (c_biases c)) (Vec (c_weights c)) (Scalar (c_beta c)) = Inr (chain_model c)"
    using d(6,7) by (simp add: IsingEBM_def chain_model_def)
  show ?thesis
    unfolding sample_ising_stream_try_def Let_def
    by (simp add: d m t stream_schedule sample_states_one random_key_of_def chain_init_def
        k_init_def k_samp_def IsingSamplingProgram_def)
qed

lemma sample_ising_stream_try_InrD:
  assumes "sample_ising_stream_try rs data = Inr r"
  shows "\<exists>c t. read_config data = Some c
           \<and> py_int (dict_get data ''steps_per_sample'' (JInt 2)) = Inr t"
proof -
  from assms obtain n weights biases beta model key schedule where
    n: "py_int (dict_get data ''n_nodes'' (JInt 5)) = Inr n"
    and w: "jnp_array (dict_get data ''weights'' (JList (py_repeat (1 / 2) (n - 1)))) = Inr weights"
    and b: "jnp_array (dict_get data ''biases'' (JList (py_repeat 0 n))) = Inr biases"
    and be: "jnp_array (dict_get data ''beta'' (JNum 1)) = Inr beta"
    and m: "IsingEBM (chain_nodes n) (chain_edges (chain_nodes n) n) biases weights beta = Inr model"
    and k: "random_key_of rs (dict_get data ''random_key'' (JInt 0)) = Inr key"
    and s: "SamplingSchedule (JInt 0) (JInt 1) (dict_get data ''steps_per_sample'' (JInt 2))
              = Inr schedule"
    unfolding sample_ising_stream_try_def Let_def
    by (auto split: sum.splits)
  from IsingEBM_InrD [OF m] obtain bs ws b0 where
    v: "biases = Vec bs" "weights = Vec ws" "beta = Scalar b0"
       "length bs = nat n" "length ws = nat (n - 1)"
    by auto
  from k obtain seed where sd: "py_int (dict_get data ''random_key'' (JInt 0)) = Inr seed"
    by (auto simp: random_key_of_def split: sum.splits)
  have 1: "dict_get data ''weights'' (JList (py_repeat (1 / 2) (n - 1))) = JList ws"
    using w v by (simp add: jnp_array_VecD)
  have 2: "dict_get data ''biases'' (JList (py_repeat 0 n)) = JList bs"
    using b v by (simp add: jnp_array_VecD)
  have 3: "jnp_array (dict_get data ''beta'' (JNum 1)) = Inr (Scalar b0)"
    using be v by simp
  have "read_config data \<noteq> None"
    using v(4,5) by (auto simp: read_config_def n 1 2 3 sd)
  moreover from s obtain t where "py_int (dict_get data ''steps_per_sample'' (JInt 2)) = Inr t"
    by (auto simp: stream_schedule split: sum.splits)
  ultimately show ?thesis by auto
qed

lemma sample_ising_stream_fields:
  assumes "\<forall>k \<in> set stream_fields. d1 k = d2 k"
  shows "sample_ising_stream rs d1 = sample_ising_stream rs d2"
proof -
  have e: "dict_get d1 ''n_nodes'' = dict_get d2 ''n_nodes''"
    "dict_get d1 ''weights'' = dict_get d2 ''weights''"
    "dict_get d1 ''biases'' = dict_get d2 ''biases''"
    "dict_get d1 ''beta'' = dict_get d2 ''beta''"
    "dict_get d1 ''steps_per_sample'' = dict_get d2 ''steps_per_sample''"
    "dict_get d1 ''random_key'' = dict_get d2 ''random_key''"
    using assms by (auto simp: stream_fields_def dict_get_def fun_eq_iff)
  show ?thesis
    unfolding sample_ising_stream_def sample_ising_stream_try_def by (simp only: e)
qed

lemma dict_get_restrict:
  "dict_get (data |` (- F)) k d = (if k \<in> F then d else dict_get data k d)"
  by (simp add: dict_get_def restrict_map_def)

lemma omit_defaulted:
  assumes F: "F \<subseteq> defaulted_fields" and ok: "sample_ising rs data = IsingOk b"
  shows "\<exists>b'. sample_ising rs (data |` (- F)) = IsingOk b'"
proof -
  from sample_ising_cases [of data rs] ok obtain c sch where
    c: "read_config data = Some c" and sch: "read_schedule data = Some sch"
    by auto
  note d = read_config_SomeD [OF c]
  note s = read_schedule_SomeD [OF sch]
  have notin: "''n_nodes'' \<notin> F" "''weights'' \<notin> F" "''biases'' \<notin> F"
    using F by (auto simp: defaulted_fields_def)
  have "read_config (data |` (- F)) \<noteq> None"
    using d(6,7) by (simp add: read_config_def dict_get_restrict notin d)
  moreover have "read_schedule (data |` (- F)) \<noteq> None"
    using s(4) by (auto simp: read_schedule_def SamplingSchedule_def dict_get_restrict s(1-3))
  ultimately show ?thesis
    using sample_ising_cases [of "data |` (- F)" rs] by auto
qed

lemma fill_default:
  assumes none: "data k = None"
    and others: "k \<noteq> ''n_nodes''" "k \<noteq> ''weights''" "k \<noteq> ''biases''"
    and mine: "k = ''beta'' \<longrightarrow> v = JNum 1" "k = ''n_warmup'' \<longrightarrow> v = JInt 100"
      "k = ''n_samples'' \<longrightarrow> v = JInt 1000" "k = ''steps_per_sample'' \<longrightarrow> v = JInt 2"
      "k = ''random_key'' \<longrightarrow> v = JInt 0"
  shows "sample_ising rs (data(k \<mapsto> v)) = sample_ising rs data"
proof -
  have e: "dict_get (data(k \<mapsto> v)) ''n_nodes'' = dict_get data ''n_nodes''"
    "dict_get (data(k \<mapsto> v)) ''weights'' = dict_get data ''weights''"
    "dict_get (data(k \<mapsto> v)) ''biases'' = dict_get data ''biases''"
    "dict_get (data(k \<mapsto> v)) ''beta'' (JNum 1) = dict_get data ''beta'' (JNum 1)"
    "dict_get (data(k \<mapsto> v)) ''n_warmup'' (JInt 100) = dict_get data ''n_warmup'' (JInt 100)"
    "dict_get (data(k \<mapsto> v)) ''n_samples'' (JInt 1000) = dict_get data ''n_samples'' (JInt 1000)"
    "dict_get (data(k \<mapsto> v)) ''steps_per_sample'' (JInt 2)
       = dict_get data ''steps_per_sample'' (JInt 2)"
    "dict_get (data(k \<mapsto> v)) ''random_key'' (JInt 0) = dict_get data ''random_key'' (JInt 0)"
    using none others mine by (auto simp: dict_get_def fun_eq_iff)
  show ?thesis
    unfolding sample_ising_def sample_ising_try_def by (simp only: e)
qed

section \<open>Running the sampler on the concrete stream\<close>

lemma sigmoid_bounds: "0 < sigmoid x" "sigmoid x < 1"
  by (simp_all add: sigmoid_def add_pos_pos)

lemma resample_draws: "resample h 0 = 1" "resample h 1 = - 1"
  using sigmoid_bounds [of "2 * h"] by (simp_all add: resample_def)

lemma test_stream_simps:
  "rs_key test_stream seed = nat \<bar>seed\<bar>"
  "rs_split test_stream k i = 5 * k + 3 * i + 1"
  "rs_uniform test_stream k = (if k mod 4 < 2 then 0 else 1)"
  by (simp_all add: test_stream_def)

lemma run_sweeps_unfold:
  "run_sweeps rs m blocks (numeral n) k s =
     run_sweeps rs m blocks (pred_numeral n) (rs_split rs k 0) (sweep rs m blocks (rs_split rs k 1) s)"
  by (simp add: numeral_eq_Suc)

lemma record_samples_unfold:
  "record_samples rs m blocks steps (numeral n) k s =
     (case run_sweeps rs m blocks steps k s of
        (k', s') \<Rightarrow> s' # record_samples rs m blocks steps (pred_numeral n) k' s')"
  by (simp add: numeral_eq_Suc)

lemma nodes2: "chain_nodes 2 = [0, Suc 0]"
  by (simp add: chain_nodes_def py_range_def upt_conv_Cons)

lemma edges2: "chain_edges [0, Suc 0] 2 = [(0, Suc 0)]"
  by (simp add: chain_edges_def py_range_def upt_conv_Cons)

lemma blocks2: "free_blocks [0, Suc 0] = [[0], [Suc 0]]"
  by (simp add: free_blocks_def)

lemmas run_simps =
  chain_init_def chain_model_def chain_program_def k_init_def k_samp_def hinton_init_def
  IsingSamplingProgram_def nodes2 edges2 blocks2 sweep_def update_block_def
  test_stream_simps resample_draws run_sweeps_unfold record_samples_unfold

lemma read_config_chain2:
  assumes "data ''n_nodes'' = Some (JInt 2)" "data ''weights'' = Some (JList [1])"
    "data ''biases'' = Some (JList [0, 1])" "data ''beta'' = None" "data ''random_key'' = None"
  shows "read_config data = Some config2"
  using assms by (simp add: read_config_def dict_get_def config2_def)

lemma post_warmup2: "post_warmup test_stream config2 1 = [- 1, 1]"
  by (simp add: post_warmup_def config2_def run_simps)

lemma stream_state2:
  "snd (run_sweeps test_stream (chain_model config2) (free_blocks (chain_nodes (c_n_nodes config2)))
          (nat 1) (k_samp test_stream config2) (chain_init test_stream config2)) = [- 1, 1]"
  by (simp add: config2_def run_simps)

lemma nodes3: "chain_nodes 3 = [0, Suc 0, 2]"
  by (simp add: chain_nodes_def py_range_def upt_conv_Cons)

lemma blocks3: "free_blocks [0, Suc 0, 2] = [[0, 2], [Suc 0]]"
  by (simp add: free_blocks_def)

lemma sweep3:
  "sweep test_stream m [[0, 2], [Suc 0]] k [a, b, c] =
     [if (25 * k + 6) mod 4 < 2 then 1 else - 1,
      if (25 * k + 21) mod 4 < 2 then 1 else - 1,
      if (25 * k + 9) mod 4 < 2 then 1 else - 1]"
  by (simp add: sweep_def update_block_def test_stream_simps resample_draws algebra_simps)

lemma init3:
  "chain_init test_stream
     \<lparr>c_n_nodes = 3, c_weights = [1, 1], c_biases = [0, 0, 0], c_beta = 1, c_seed = 42\<rparr> = [1, - 1, - 1]"
  by (simp add: chain_init_def chain_model_def k_init_def hinton_init_def nodes3 test_stream_simps)

lemma scenario_samples: "chain_samples test_stream
     \<lparr>c_n_nodes = 3, c_weights = [1, 1], c_biases = [0, 0, 0], c_beta = 1, c_seed = 42\<rparr>
     \<lparr>sch_n_warmup = 50, sch_n_samples = 5, sch_steps_per_sample = 1\<rparr>
   = [[- 1, 1, 1], [- 1, - 1, - 1], [1, - 1, - 1], [1, 1, 1], [- 1, 1, 1]]"
  unfolding chain_samples_def sample_states_def warmup_def init3
  by (simp add: chain_program_def k_samp_def IsingSamplingProgram_def nodes3 blocks3 sweep3
      test_stream_simps run_sweeps_unfold record_samples_unfold)

lemma read_config_defaults:
  assumes "read_config data = Some c"
  shows "data ''beta'' = None \<longrightarrow> c_beta c = 1"
    and "data ''random_key'' = None \<longrightarrow> c_seed c = 0"
  using read_config_SomeD(4,5) [OF assms] by (auto simp: dict_get_def)

lemma read_schedule_defaults:
  assumes "read_schedule data = Some sch"
  shows "data ''n_warmup'' = None \<longrightarrow> sch_n_warmup sch = 100"
    and "data ''n_samples'' = None \<longrightarrow> sch_n_samples sch = 1000"
    and "data ''steps_per_sample'' = None \<longrightarrow> sch_steps_per_sample sch = 2"
  using read_schedule_SomeD(1-3) [OF assms] by (auto simp: dict_get_def)

lemma read_schedule_absent:
  assumes "data ''n_warmup'' = None" "data ''n_samples'' = None" "data ''steps_per_sample'' = None"
  shows "read_schedule data =
           Some \<lparr>sch_n_warmup = 100, sch_n_samples = 1000, sch_steps_per_sample = 2\<rparr>"
  using assms by (simp add: read_schedule_def SamplingSchedule_def dict_get_def)

section \<open>The claims\<close>

text \<open>
  Claim C4. For every payload with \<open>n_samples = 0\<close>, whatever the other fields are, a
  response that carries recorded states carries the empty sequence and reports the
  count 0; and the endpoint does answer so whenever the other fields are well formed.
\<close>

theorem C4_no_samples:
  assumes "data ''n_samples'' = Some (JInt 0)"
  shows "(\<forall>body. sample_ising rs data = IsingOk body \<longrightarrow>
            r_samples body = [] \<and> r_n_samples body = 0 \<and> r_final_state body = None)
       \<and> (read_config data \<noteq> None \<and> read_schedule data \<noteq> None \<longrightarrow>
            (\<exists>body. sample_ising rs data = IsingOk body))"
proof -
  have k: "dict_get data ''n_samples'' (JInt 1000) = JInt 0"
    using assms by (simp add: dict_get_def)
  have a: "r_samples body = [] \<and> r_n_samples body = 0 \<and> r_final_state body = None"
    if ok: "sample_ising rs data = IsingOk body" for body
  proof -
    from sample_ising_cases [of data rs] ok obtain c sch where
      sch: "read_schedule data = Some sch"
      and b: "sample_ising rs data =
        IsingOk
          \<lparr>r_samples = chain_samples rs c sch,
           r_final_state =
             (if length (chain_samples rs c sch) > 0 then Some (last (chain_samples rs c sch))
              else None),
           r_n_samples = length (chain_samples rs c sch),
           r_model_info =
             \<lparr>mi_n_nodes = dict_get data ''n_nodes'' (JInt 5), mi_beta = c_beta c,
              mi_n_edges = nat (c_n_nodes c - 1)\<rparr>\<rparr>"
      by auto
    from read_schedule_SomeD(2) [OF sch] k have "sch_n_samples sch = 0" by simp
    then have "chain_samples rs c sch = []"
      using chain_samples_length [of rs c sch] by simp
    with b ok show ?thesis by auto
  qed
  have b: "\<exists>body. sample_ising rs data = IsingOk body"
    if "read_config data \<noteq> None \<and> read_schedule data \<noteq> None"
    using that sample_ising_cases [of data rs] by auto
  from a b show ?thesis by blast
qed

theorem C4_no_samples_witness:
  "\<exists>body. sample_ising test_stream (chain2(''n_samples'' \<mapsto> JInt 0)) = IsingOk body
     \<and> r_samples body = [] \<and> r_n_samples body = 0 \<and> r_final_state body = None"
proof -
  let ?p = "chain2(''n_samples'' \<mapsto> JInt 0)"
  have k: "?p ''n_samples'' = Some (JInt 0)" by simp
  have c: "read_config ?p = Some config2"
    by (rule read_config_chain2) (simp_all add: chain2_def)
  have sch: "read_schedule ?p \<noteq> None"
    by (simp add: read_schedule_def SamplingSchedule_def dict_get_def chain2_def)
  from C4_no_samples [of ?p test_stream] k c sch show ?thesis by auto
qed

text \<open>
  Claim C5. For every well-formed payload with \<open>steps_per_sample = 0\<close> and
  \<open>n_samples = k > 0\<close>, the endpoint succeeds, and the \<open>k\<close> recorded samples are all the
  joint state as it is after the warmup sweeps.
\<close>

theorem C5_no_steps:
  assumes c: "read_config data = Some c"
    and t: "data ''steps_per_sample'' = Some (JInt 0)"
    and k: "data ''n_samples'' = Some (JInt k)" and pos: "0 < k"
    and w: "py_int (dict_get data ''n_warmup'' (JInt 100)) = Inr w"
  shows "\<exists>body. sample_ising rs data = IsingOk body
           \<and> r_samples body = replicate (nat k) (post_warmup rs c w)
           \<and> r_n_samples body = nat k
           \<and> r_final_state body = Some (post_warmup rs c w)"
proof -
  let ?sch = "\<lparr>sch_n_warmup = w, sch_n_samples = k, sch_steps_per_sample = 0\<rparr>"
  have t': "dict_get data ''steps_per_sample'' (JInt 2) = JInt 0"
    by (simp add: dict_get_def t)
  have k': "dict_get data ''n_samples'' (JInt 1000) = JInt k"
    by (simp add: dict_get_def k)
  have sch: "read_schedule data = Some ?sch"
    using pos by (intro read_schedule_SomeI) (simp_all add: w t' k')
  have xs: "chain_samples rs c ?sch = replicate (nat k) (post_warmup rs c w)"
    using chain_samples_no_steps [of ?sch rs c] by simp
  have ne: "0 < nat k" using pos by simp
  show ?thesis
    using ne by (simp add: sample_ising_ok [OF c sch] xs)
qed

theorem C5_no_steps_witness:
  "\<exists>body. sample_ising test_stream
       (chain2(''n_warmup'' \<mapsto> JInt 1, ''n_samples'' \<mapsto> JInt 3, ''steps_per_sample'' \<mapsto> JInt 0))
       = IsingOk body
     \<and> r_samples body = [[- 1, 1], [- 1, 1], [- 1, 1]]
     \<and> r_n_samples body = 3
     \<and> r_final_state body = Some [- 1, 1]"
proof -
  let ?p = "chain2(''n_warmup'' \<mapsto> JInt 1, ''n_samples'' \<mapsto> JInt 3, ''steps_per_sample'' \<mapsto> JInt 0)"
  have c: "read_config ?p = Some config2"
    by (rule read_config_chain2) (simp_all add: chain2_def)
  have t: "?p ''steps_per_sample'' = Some (JInt 0)" by simp
  have k: "?p ''n_samples'' = Some (JInt 3)" by simp
  have w: "py_int (dict_get ?p ''n_warmup'' (JInt 100)) = Inr 1" by (simp add: dict_get_def)
  have r: "replicate 3 [- 1, 1 :: int] = [[- 1, 1], [- 1, 1], [- 1, 1]]"
    by (simp add: numeral_eq_Suc)
  from C5_no_steps [OF c t k _ w, of test_stream] show ?thesis
    by (simp add: post_warmup2 r)
qed

text \<open>
  Claim C7. A field that is absent takes its default: \<open>beta = 1.0\<close>, \<open>n_warmup = 100\<close>,
  \<open>n_samples = 1000\<close>, \<open>steps_per_sample = 2\<close>, \<open>random_key = 0\<close>. The response to a payload
  without one of these fields is the response to the payload with the default written
  in; on a well-formed payload the handler makes the key from the seed read, runs the
  sampler on the schedule read and reports the \<open>\<beta>\<close> read, and what is read for an absent
  field is its default; and omitting any of the five fields from a payload that succeeds
  leaves a payload that succeeds.
\<close>

theorem C7_defaults:
  "(data ''beta'' = None \<longrightarrow> sample_ising rs data = sample_ising rs (data(''beta'' \<mapsto> JNum 1)))
   \<and> (data ''n_warmup'' = None \<longrightarrow>
        sample_ising rs data = sample_ising rs (data(''n_warmup'' \<mapsto> JInt 100)))
   \<and> (data ''n_samples'' = None \<longrightarrow>
        sample_ising rs data = sample_ising rs (data(''n_samples'' \<mapsto> JInt 1000)))
   \<and> (data ''steps_per_sample'' = None \<longrightarrow>
        sample_ising rs data = sample_ising rs (data(''steps_per_sample'' \<mapsto> JInt 2)))
   \<and> (data ''random_key'' = None \<longrightarrow>
        sample_ising rs data = sample_ising rs (data(''random_key'' \<mapsto> JInt 0)))
   \<and> (F \<subseteq> defaulted_fields \<and> (\<exists>b. sample_ising rs data = IsingOk b) \<longrightarrow>
        (\<exists>b. sample_ising rs (data |` (- F)) = IsingOk b))
   \<and> (read_config data = Some c \<and> read_schedule data = Some sch \<longrightarrow>
        sample_ising rs data =
          IsingOk
            \<lparr>r_samples =
               sample_states rs (rs_split rs (rs_key rs (c_seed c)) 1)
                 (IsingSamplingProgram (chain_model c) (free_blocks (chain_nodes (c_n_nodes c))) [])
                 sch
                 (hinton_init rs (rs_split rs (rs_key rs (c_seed c)) 0) (chain_model c)
                    (free_blocks (chain_nodes (c_n_nodes c))))
                 [] [chain_nodes (c_n_nodes c)],
             r_final_state =
               (if sch_n_samples sch = 0 then None else Some (last (chain_samples rs c sch))),
             r_n_samples = nat (sch_n_samples sch),
             r_model_info =
               \<lparr>mi_n_nodes = dict_get data ''n_nodes'' (JInt 5), mi_beta = c_beta c,
                mi_n_edges = nat (c_n_nodes c - 1)\<rparr>\<rparr>
        \<and> m_beta (chain_model c) = c_beta c
        \<and> (data ''beta'' = None \<longrightarrow> c_beta c = 1)
        \<and> (data ''random_key'' = None \<longrightarrow> c_seed c = 0)
        \<and> (data ''n_warmup'' = None \<longrightarrow> sch_n_warmup sch = 100)
        \<and> (data ''n_samples'' = None \<longrightarrow> sch_n_samples sch = 1000)
        \<and> (data ''steps_per_sample'' = None \<longrightarrow> sch_steps_per_sample sch = 2))
   \<and> (data ''n_warmup'' = None \<and> data ''n_samples'' = None \<and> data ''steps_per_sample'' = None \<longrightarrow>
        read_schedule data =
          Some \<lparr>sch_n_warmup = 100, sch_n_samples = 1000, sch_steps_per_sample = 2\<rparr>)"
proof -
  have 1: "sample_ising rs data = sample_ising rs (data(''beta'' \<mapsto> JNum 1))"
    if "data ''beta'' = None"
    using that fill_default [of data "''beta''" "JNum 1" rs] by simp
  have 2: "sample_ising rs data = sample_ising rs (data(''n_warmup'' \<mapsto> JInt 100))"
    if "data ''n_warmup'' = None"
    using that fill_default [of data "''n_warmup''" "JInt 100" rs] by simp
  have 3: "sample_ising rs data = sample_ising rs (data(''n_samples'' \<mapsto> JInt 1000))"
    if "data ''n_samples'' = None"
    using that fill_default [of data "''n_samples''" "JInt 1000" rs] by simp
  have 4: "sample_ising rs data = sample_ising rs (data(''steps_per_sample'' \<mapsto> JInt 2))"
    if "data ''steps_per_sample'' = None"
    using that fill_default [of data "''steps_per_sample''" "JInt 2" rs] by simp
  have 5: "sample_ising rs data = sample_ising rs (data(''random_key'' \<mapsto> JInt 0))"
    if "data ''random_key'' = None"
    using that fill_default [of data "''random_key''" "JInt 0" rs] by simp
  have 6: "\<exists>b. sample_ising rs (data |` (- F)) = IsingOk b"
    if "F \<subseteq> defaulted_fields \<and> (\<exists>b. sample_ising rs data = IsingOk b)"
    using that omit_defaulted [of F rs data] by blast
  have 7: "sample_ising rs data =
          IsingOk
            \<lparr>r_samples =
               sample_states rs (rs_split rs (rs_key rs (c_seed c)) 1)
                 (IsingSamplingProgram (chain_model c) (free_blocks (chain_nodes (c_n_nodes c))) [])
                 sch
                 (hinton_init rs (rs_split rs (rs_key rs (c_seed c)) 0) (chain_model c)
                    (free_blocks (chain_nodes (c_n_nodes c))))
                 [] [chain_nodes (c_n_nodes c)],
             r_final_state =
               (if sch_n_samples sch = 0 then None else Some (last (chain_samples rs c sch))),
             r_n_samples = nat (sch_n_samples sch),
             r_model_info =
               \<lparr>mi_n_nodes = dict_get data ''n_nodes'' (JInt 5), mi_beta = c_beta c,
                mi_n_edges = nat (c_n_nodes c - 1)\<rparr>\<rparr>"
    if c: "read_config data = Some c" and sch: "read_schedule data = Some sch"
  proof -
    have l: "length (chain_samples rs c sch) = nat (sch_n_samples sch)"
      by (rule chain_samples_length)
    have p: "0 \<le> sch_n_samples sch"
      by (rule read_schedule_SomeD(4) [OF sch])
    have e: "chain_samples rs c sch =
               sample_states rs (rs_split rs (rs_key rs (c_seed c)) 1)
                 (IsingSamplingProgram (chain_model c) (free_blocks (chain_nodes (c_n_nodes c))) [])
                 sch
                 (hinton_init rs (rs_split rs (rs_key rs (c_seed c)) 0) (chain_model c)
                    (free_blocks (chain_nodes (c_n_nodes c))))
                 [] [chain_nodes (c_n_nodes c)]"
      by (simp add: chain_samples_def chain_program_def chain_init_def k_init_def k_samp_def)
    show ?thesis
      unfolding sample_ising_ok [OF c sch] l using e p by simp
  qed
  have 8: "m_beta (chain_model c) = c_beta c"
    by (simp add: chain_model_def)
  note 9 = read_config_defaults read_schedule_defaults
  have 10: "read_schedule data =
          Some \<lparr>sch_n_warmup = 100, sch_n_samples = 1000, sch_steps_per_sample = 2\<rparr>"
    if "data ''n_warmup'' = None \<and> data ''n_samples'' = None \<and> data ''steps_per_sample'' = None"
    using that read_schedule_absent [of data] by blast
  from 1 2 3 4 5 6 7 8 9 10 show ?thesis by blast
qed

theorem C7_defaults_witness:
  "read_config chain2 = Some config2
   \<and> c_beta config2 = 1 \<and> c_seed config2 = 0
   \<and> read_schedule chain2 =
       Some \<lparr>sch_n_warmup = 100, sch_n_samples = 1000, sch_steps_per_sample = 2\<rparr>
   \<and> sample_ising test_stream chain2 =
       IsingOk
         \<lparr>r_samples =
            sample_states test_stream (rs_split test_stream (rs_key test_stream 0) 1)
              (IsingSamplingProgram (chain_model config2) (free_blocks (chain_nodes 2)) [])
              \<lparr>sch_n_warmup = 100, sch_n_samples = 1000, sch_steps_per_sample = 2\<rparr>
              (hinton_init test_stream (rs_split test_stream (rs_key test_stream 0) 0)
                 (chain_model config2) (free_blocks (chain_nodes 2)))
              [] [chain_nodes 2],
          r_final_state =
            Some (last (chain_samples test_stream config2
              \<lparr>sch_n_warmup = 100, sch_n_samples = 1000, sch_steps_per_sample = 2\<rparr>)),
          r_n_samples = 1000,
          r_model_info = \<lparr>mi_n_nodes = JInt 2, mi_beta = 1, mi_n_edges = 1\<rparr>\<rparr>
   \<and> sample_ising test_stream chain2
     = sample_ising test_stream (chain2(''beta'' \<mapsto> JNum 1))
   \<and> sample_ising test_stream chain2
     = sample_ising test_stream (chain2(''n_warmup'' \<mapsto> JInt 100))
   \<and> sample_ising test_stream chain2
     = sample_ising test_stream (chain2(''n_samples'' \<mapsto> JInt 1000))
   \<and> sample_ising test_stream chain2
     = sample_ising test_stream (chain2(''steps_per_sample'' \<mapsto> JInt 2))
   \<and> sample_ising test_stream chain2
     = sample_ising test_stream (chain2(''random_key'' \<mapsto> JInt 0))
   \<and> (\<exists>b. sample_ising test_stream (scenario |` (- defaulted_fields)) = IsingOk b)"
proof -
  let ?c = "\<lparr>c_n_nodes = 3, c_weights = [1, 1], c_biases = [0, 0, 0], c_beta = 1, c_seed = 42\<rparr>"
  let ?sch = "\<lparr>sch_n_warmup = 50, sch_n_samples = 5, sch_steps_per_sample = 1\<rparr>"
  let ?d = "\<lparr>sch_n_warmup = 100, sch_n_samples = 1000, sch_steps_per_sample = 2\<rparr>"
  have c: "read_config scenario = Some ?c"
    by (simp add: read_config_def scenario_def dict_get_def)
  have sch: "read_schedule scenario = Some ?sch"
    by (simp add: read_schedule_def SamplingSchedule_def scenario_def dict_get_def)
  have ok: "\<exists>b. sample_ising test_stream scenario = IsingOk b"
    by (simp add: sample_ising_ok [OF c sch])
  have none: "chain2 ''beta'' = None" "chain2 ''n_warmup'' = None" "chain2 ''n_samples'' = None"
    "chain2 ''steps_per_sample'' = None" "chain2 ''random_key'' = None"
    by (simp_all add: chain2_def)
  have c2: "read_config chain2 = Some config2"
    by (rule read_config_chain2) (simp_all add: chain2_def)
  note inst = C7_defaults [of chain2 test_stream "{}" config2 ?d]
  from inst none have d2: "read_schedule chain2 = Some ?d"
    by blast
  from inst none
  have a: "sample_ising test_stream chain2
     = sample_ising test_stream (chain2(''beta'' \<mapsto> JNum 1))
   \<and> sample_ising test_stream chain2
     = sample_ising test_stream (chain2(''n_warmup'' \<mapsto> JInt 100))
   \<and> sample_ising test_stream chain2
     = sample_ising test_stream (chain2(''n_samples'' \<mapsto> JInt 1000))
   \<and> sample_ising test_stream chain2
     = sample_ising test_stream (chain2(''steps_per_sample'' \<mapsto> JInt 2))
   \<and> sample_ising test_stream chain2
     = sample_ising test_stream (chain2(''random_key'' \<mapsto> JInt 0))"
    by blast
  from inst c2 d2 none have v: "c_beta config2 = 1" "c_seed config2 = 0"
    by blast+
  from inst c2 d2 have r: "sample_ising test_stream chain2 =
          IsingOk
            \<lparr>r_samples =
               sample_states test_stream (rs_split test_stream (rs_key test_stream (c_seed config2)) 1)
                 (IsingSamplingProgram (chain_model config2)
                    (free_blocks (chain_nodes (c_n_nodes config2))) [])
                 ?d
                 (hinton_init test_stream
                    (rs_split test_stream (rs_key test_stream (c_seed config2)) 0)
                    (chain_model config2) (free_blocks (chain_nodes (c_n_nodes config2))))
                 [] [chain_nodes (c_n_nodes config2)],
             r_final_state =
               (if sch_n_samples ?d = 0 then None
                else Some (last (chain_samples test_stream config2 ?d))),
             r_n_samples = nat (sch_n_samples ?d),
             r_model_info =
               \<lparr>mi_n_nodes = dict_get chain2 ''n_nodes'' (JInt 5), mi_beta = c_beta config2,
                mi_n_edges = nat (c_n_nodes config2 - 1)\<rparr>\<rparr>"
    by blast
  have n: "c_n_nodes config2 = 2" "dict_get chain2 ''n_nodes'' (JInt 5) = JInt 2"
    by (simp_all add: config2_def chain2_def dict_get_def)
  have r': "sample_ising test_stream chain2 =
       IsingOk
         \<lparr>r_samples =
            sample_states test_stream (rs_split test_stream (rs_key test_stream 0) 1)
              (IsingSamplingProgram (chain_model config2) (free_blocks (chain_nodes 2)) [])
              ?d
              (hinton_init test_stream (rs_split test_stream (rs_key test_stream 0) 0)
                 (chain_model config2) (free_blocks (chain_nodes 2)))
              [] [chain_nodes 2],
          r_final_state = Some (last (chain_samples test_stream config2 ?d)),
          r_n_samples = 1000,
          r_model_info = \<lparr>mi_n_nodes = JInt 2, mi_beta = 1, mi_n_edges = 1\<rparr>\<rparr>"
    using r unfolding v n by simp
  from C7_defaults [of scenario test_stream defaulted_fields] ok
  have b: "\<exists>b. sample_ising test_stream (scenario |` (- defaulted_fields)) = IsingOk b"
    by blast
  from a b c2 d2 v r' show ?thesis by blast
qed

text \<open>
  Claim C8. On the scenario payload (three nodes, weights \<open>[1, 1]\<close>, zero biases,
  \<open>\<beta> = 1\<close>, 50 warmup sweeps, 5 samples, one sweep per sample, seed 42) the endpoint
  succeeds with exactly five recorded states, each of length three with entries in
  \<open>{-1, 1}\<close>, for every random stream.
\<close>

theorem C8_scenario:
  "\<exists>body. sample_ising rs scenario = IsingOk body
     \<and> length (r_samples body) = 5 \<and> r_n_samples body = 5
     \<and> (\<forall>s \<in> set (r_samples body). length s = 3 \<and> set s \<subseteq> {- 1, 1})"
proof -
  let ?c = "\<lparr>c_n_nodes = 3, c_weights = [1, 1], c_biases = [0, 0, 0], c_beta = 1, c_seed = 42\<rparr>"
  let ?sch = "\<lparr>sch_n_warmup = 50, sch_n_samples = 5, sch_steps_per_sample = 1\<rparr>"
  have c: "read_config scenario = Some ?c"
    by (simp add: read_config_def scenario_def dict_get_def)
  have sch: "read_schedule scenario = Some ?sch"
    by (simp add: read_schedule_def SamplingSchedule_def scenario_def dict_get_def)
  have each: "length s = 3 \<and> set s \<subseteq> {- 1, 1}" if "s \<in> set (chain_samples rs ?c ?sch)" for s
    using chain_samples_each [OF that] by (auto simp: spins_def list_all_iff)
  show ?thesis
    using each by (simp add: sample_ising_ok [OF c sch] chain_samples_length)
qed

theorem C8_scenario_witness:
  "sample_ising test_stream scenario =
     IsingOk
       \<lparr>r_samples = [[- 1, 1, 1], [- 1, - 1, - 1], [1, - 1, - 1], [1, 1, 1], [- 1, 1, 1]],
        r_final_state = Some [- 1, 1, 1], r_n_samples = 5,
        r_model_info = \<lparr>mi_n_nodes = JInt 3, mi_beta = 1, mi_n_edges = 2\<rparr>\<rparr>
   \<and> (\<exists>body. sample_ising test_stream scenario = IsingOk body
        \<and> length (r_samples body) = 5 \<and> r_n_samples body = 5
        \<and> length (hd (r_samples body)) = 3 \<and> set (hd (r_samples body)) \<subseteq> {- 1, 1}
        \<and> length (last (r_samples body)) = 3 \<and> set (last (r_samples body)) \<subseteq> {- 1, 1})"
proof -
  let ?c = "\<lparr>c_n_nodes = 3, c_weights = [1, 1], c_biases = [0, 0, 0], c_beta = 1, c_seed = 42\<rparr>"
  let ?sch = "\<lparr>sch_n_warmup = 50, sch_n_samples = 5, sch_steps_per_sample = 1\<rparr>"
  have c: "read_config scenario = Some ?c"
    by (simp add: read_config_def scenario_def dict_get_def)
  have sch: "read_schedule scenario = Some ?sch"
    by (simp add: read_schedule_def SamplingSchedule_def scenario_def dict_get_def)
  have n: "dict_get scenario ''n_nodes'' (JInt 5) = JInt 3"
    by (simp add: dict_get_def scenario_def)
  have run: "sample_ising test_stream scenario =
     IsingOk
       \<lparr>r_samples = [[- 1, 1, 1], [- 1, - 1, - 1], [1, - 1, - 1], [1, 1, 1], [- 1, 1, 1]],
        r_final_state = Some [- 1, 1, 1], r_n_samples = 5,
        r_model_info = \<lparr>mi_n_nodes = JInt 3, mi_beta = 1, mi_n_edges = 2\<rparr>\<rparr>"
    unfolding sample_ising_ok [OF c sch] scenario_samples n by simp
  from C8_scenario [of test_stream] obtain body where
    ok: "sample_ising test_stream scenario = IsingOk body"
    and k: "length (r_samples body) = 5" "r_n_samples body = 5"
    and each: "\<forall>s \<in> set (r_samples body). length s = 3 \<and> set s \<subseteq> {- 1, 1}"
    by blast
  from k have ne: "r_samples body \<noteq> []" by auto
  then have "hd (r_samples body) \<in> set (r_samples body)" "last (r_samples body) \<in> set (r_samples body)"
    by simp_all
  with each ok k run show ?thesis by blast
qed

text \<open>
  Claim C10. \<^verbatim>\<open>/sample/ising/stream\<close> ignores \<open>n_warmup\<close> and \<open>n_samples\<close> of the payload:
  setting or removing them does not change the response. It runs the schedule of no
  warmup sweep and one recorded sample, and every successful response has equal
  \<open>sample\<close> and \<open>state\<close> fields, both present.
\<close>

theorem C10_stream_schedule:
  "sample_ising_stream rs (data(''n_warmup'' := x, ''n_samples'' := y)) = sample_ising_stream rs data
   \<and> (\<forall>c t. read_config data = Some c
         \<and> py_int (dict_get data ''steps_per_sample'' (JInt 2)) = Inr t \<longrightarrow>
       chain_samples rs c \<lparr>sch_n_warmup = 0, sch_n_samples = 1, sch_steps_per_sample = t\<rparr>
         = [snd (run_sweeps rs (chain_model c) (free_blocks (chain_nodes (c_n_nodes c)))
                  (nat t) (k_samp rs c) (chain_init rs c))]
       \<and> sample_ising_stream rs data =
           StreamOk
             (Some (hd (chain_samples rs c
                \<lparr>sch_n_warmup = 0, sch_n_samples = 1, sch_steps_per_sample = t\<rparr>)))
             (Some (last (chain_samples rs c
                \<lparr>sch_n_warmup = 0, sch_n_samples = 1, sch_steps_per_sample = t\<rparr>))))
   \<and> (\<forall>a b. sample_ising_stream rs data = StreamOk a b \<longrightarrow> a = b \<and> a \<noteq> None)"
proof -
  have 1: "sample_ising_stream rs (data(''n_warmup'' := x, ''n_samples'' := y))
         = sample_ising_stream rs data"
    by (rule sample_ising_stream_fields) (simp add: stream_fields_def)
  have 2: "chain_samples rs c \<lparr>sch_n_warmup = 0, sch_n_samples = 1, sch_steps_per_sample = t\<rparr>
         = [snd (run_sweeps rs (chain_model c) (free_blocks (chain_nodes (c_n_nodes c)))
                  (nat t) (k_samp rs c) (chain_init rs c))]" for c t
    by (simp add: chain_samples_def sample_states_one chain_program_def IsingSamplingProgram_def)
  have 3: "a = b \<and> a \<noteq> None" if ok: "sample_ising_stream rs data = StreamOk a b" for a b
  proof (cases "sample_ising_stream_try rs data")
    case (Inl e)
    with ok show ?thesis by (simp add: sample_ising_stream_def)
  next
    case (Inr r)
    from sample_ising_stream_try_InrD [OF Inr] obtain c t where
      "read_config data = Some c" "py_int (dict_get data ''steps_per_sample'' (JInt 2)) = Inr t"
      by auto
    from sample_ising_stream_try_ok [OF this, of rs] ok show ?thesis
      by (auto simp: sample_ising_stream_def)
  qed
  show ?thesis
    using 1 3 by (auto simp: 2 sample_ising_stream_def sample_ising_stream_try_ok)
qed

theorem C10_stream_schedule_witness:
  "sample_ising_stream test_stream
     (chain2(''steps_per_sample'' \<mapsto> JInt 1, ''n_warmup'' \<mapsto> JInt 7, ''n_samples'' \<mapsto> JInt 0))
   = StreamOk (Some [- 1, 1]) (Some [- 1, 1])
   \<and> sample_ising_stream test_stream (chain2(''steps_per_sample'' \<mapsto> JInt 1))
   = StreamOk (Some [- 1, 1]) (Some [- 1, 1])
   \<and> chain_samples test_stream config2
        \<lparr>sch_n_warmup = 0, sch_n_samples = 1, sch_steps_per_sample = 1\<rparr> = [[- 1, 1]]"
proof -
  let ?p = "chain2(''steps_per_sample'' \<mapsto> JInt 1)"
  have c: "read_config ?p = Some config2"
    by (rule read_config_chain2) (simp_all add: chain2_def)
  have t: "py_int (dict_get ?p ''steps_per_sample'' (JInt 2)) = Inr 1"
    by (simp add: dict_get_def)
  note inst = C10_stream_schedule [of test_stream ?p "Some (JInt 7)" "Some (JInt 0)"]
  from inst have 1: "sample_ising_stream test_stream
      (chain2(''steps_per_sample'' \<mapsto> JInt 1, ''n_warmup'' \<mapsto> JInt 7, ''n_samples'' \<mapsto> JInt 0))
      = sample_ising_stream test_stream ?p"
    by blast
  from inst c t have 2: "chain_samples test_stream config2
        \<lparr>sch_n_warmup = 0, sch_n_samples = 1, sch_steps_per_sample = 1\<rparr>
      = [snd (run_sweeps test_stream (chain_model config2)
           (free_blocks (chain_nodes (c_n_nodes config2))) (nat 1) (k_samp test_stream config2)
           (chain_init test_stream config2))]"
    and 3: "sample_ising_stream test_stream ?p =
        StreamOk
          (Some (hd (chain_samples test_stream config2
             \<lparr>sch_n_warmup = 0, sch_n_samples = 1, sch_steps_per_sample = 1\<rparr>)))
          (Some (last (chain_samples test_stream config2
             \<lparr>sch_n_warmup = 0, sch_n_samples = 1, sch_steps_per_sample = 1\<rparr>)))"
    by blast+
  have 4: "chain_samples test_stream config2
        \<lparr>sch_n_warmup = 0, sch_n_samples = 1, sch_steps_per_sample = 1\<rparr> = [[- 1, 1]]"
    using 2 unfolding stream_state2 .
  have 5: "sample_ising_stream test_stream ?p = StreamOk (Some [- 1, 1]) (Some [- 1, 1])"
    using 3 unfolding 4 by simp
  show ?thesis
    using 1 4 5 by (simp only: simp_thms)
qed

end
